theory Spec2Isabelle
  imports Complex_Main "HOL-Library.AList" "HOL-Library.Char_ord" "HOL-Library.List_Lexorder"
    "HOL-Library.Multiset"
begin

section \<open>Documents and stored state\<close>

text \<open>
  \<^verbatim>\<open>eduhub_queries.py\<close> talks to a document store through PyMongo. A document is a
  Python dict: here an association list from field names to values, read with
  \<open>map_of\<close>. Numbers (Python \<open>int\<close> and \<open>float\<close>, BSON int and double) are exact
  rationals: a number is held by its value, without its BSON type (every BSON integer
  and every finite double is a rational; NaN and the infinities are left out). A
  datetime is its calendar date (year, month, day) and the milliseconds elapsed in
  that day. An ObjectId is the list of its bytes: twelve, but for one made from a
  string with blanks.
\<close>

datatype val =
    VNull
  | VBool bool
  | VNum rat
  | VStr string
  | VDate nat nat nat nat
  | VOid "nat list"
  | VArr "val list"
  | VDoc "(string \<times> val) list"

type_synonym doc = "(string \<times> val) list"

text \<open>
  The exceptions of the driver that the modelled calls can raise, each with a message
  (for a failure that the server reports, a short form of the server's).
\<close>

datatype exn =
    DuplicateKeyError string
  | InvalidId string
  | OperationFailure string
  | ConnectionFailure string

fun str_exn :: "exn \<Rightarrow> string" where
  "str_exn (DuplicateKeyError m) = m"
| "str_exn (InvalidId m) = m"
| "str_exn (OperationFailure m) = m"
| "str_exn (ConnectionFailure m) = m"

text \<open>
  An index as \<open>create_index\<close> declares it: the indexed fields in order (all ascending
  in this program) and the \<open>unique\<close> option.
\<close>

record index =
  keys :: "string list"
  unique :: bool

text \<open>
  The database \<open>db = client["eduhub_db"]\<close>: \<open>db.name\<close> is the collection called
  \<open>name\<close> (a collection never written to is empty), with the indexes declared on it
  beyond the built-in one on \<open>_id\<close>. \<open>next_oid\<close> is the supply of the \<open>ObjectId()\<close>s the
  driver generates for documents inserted without an \<open>_id\<close>.
\<close>

record db =
  colls :: "string \<Rightarrow> doc list"
  indexes :: "string \<Rightarrow> index list"
  next_oid :: nat

text \<open>The database before anything is inserted.\<close>

definition empty_db :: db where
  "empty_db = \<lparr>colls = (\<lambda>_. []), indexes = (\<lambda>_. []), next_oid = 0\<rparr>"

text \<open>
  The server computes \<open>$multiply\<close>, \<open>$sum\<close> and \<open>$avg\<close> in the BSON types of the
  numbers: on the doubles that Python floats are stored as, every result is rounded to
  a double. That arithmetic is not computed here but taken as given: \<open>mul\<close> is the
  product the server returns for two numbers, \<open>sum_of\<close> its sum of a non-empty list of
  numbers in the order it meets them, \<open>avg_of\<close> its average of such a list. Counting
  and comparing are exact on the server too, and are computed. As numbers are held by
  value, the arithmetic is one of values; the server's depends on the BSON type as
  well only for whole numbers beyond \<open>2^53\<close> in magnitude, which it multiplies and adds
  exactly as integers and rounds as doubles.
\<close>

record arith =
  mul :: "rat \<Rightarrow> rat \<Rightarrow> rat"
  sum_of :: "rat list \<Rightarrow> rat"
  avg_of :: "rat list \<Rightarrow> rat"

text \<open>
  The arithmetic without rounding. The server's arithmetic agrees with it wherever no
  result needs rounding, as on the small whole numbers of the examples below.
\<close>

definition exact_arith :: arith where
  "exact_arith =
     \<lparr>mul = (\<lambda>x y. x * y), sum_of = sum_list,
      avg_of = (\<lambda>xs. sum_list xs / of_nat (length xs))\<rparr>"

section \<open>Aggregation expressions and stages\<close>

text \<open>
  A field path \<open>"$name"\<close> in an aggregation expression. A missing field behaves as
  null in every operator this program applies to one (\<open>$group\<close> keys, \<open>$avg\<close>, \<open>$sum\<close>,
  \<open>$multiply\<close>, \<open>$dateToString\<close>).
\<close>

definition field_path :: "string \<Rightarrow> doc \<Rightarrow> val" where
  "field_path k d = (case map_of d k of None \<Rightarrow> VNull | Some v \<Rightarrow> v)"

fun nums :: "val list \<Rightarrow> rat list" where
  "nums [] = []"
| "nums (VNum x # vs) = x # nums vs"
| "nums (v # vs) = nums vs"

text \<open>Accumulators of \<open>$group\<close>. \<open>{"$sum": 1}\<close> counts the group's documents.\<close>

definition acc_sum_1 :: "doc list \<Rightarrow> val" where
  "acc_sum_1 ds = VNum (of_nat (length ds))"

text \<open>
  \<open>{"$sum": "$name"}\<close> adds the numeric values and ignores the others; with no numeric
  value the result is 0.
\<close>

definition sum_nums :: "arith \<Rightarrow> rat list \<Rightarrow> rat" where
  "sum_nums ar ns = (if ns = [] then 0 else sum_of ar ns)"

definition acc_sum :: "arith \<Rightarrow> string \<Rightarrow> doc list \<Rightarrow> val" where
  "acc_sum ar k ds = VNum (sum_nums ar (nums (map (field_path k) ds)))"

text \<open>
  \<open>{"$avg": "$name"}\<close> averages the numeric values and ignores the others; with no
  numeric value the result is null.
\<close>

definition acc_avg :: "arith \<Rightarrow> string \<Rightarrow> doc list \<Rightarrow> val" where
  "acc_avg ar k ds =
     (let ns = nums (map (field_path k) ds)
      in if ns = [] then VNull else VNum (avg_of ar ns))"

text \<open>
  \<open>{"$group": {"_id": idexpr, out: acc}}\<close>: one output document per distinct value of
  the key, holding the accumulator's value over the documents with that key. The
  server promises no order of the groups; the model lists them by first occurrence.
\<close>

definition group_keys :: "val list \<Rightarrow> val list" where
  "group_keys ks = rev (remdups (rev ks))"

definition group_keyed :: "string \<Rightarrow> (doc list \<Rightarrow> val) \<Rightarrow> (val \<times> doc) list \<Rightarrow> doc list" where
  "group_keyed out acc kds =
     map (\<lambda>k. [(''_id'', k), (out, acc (map snd (filter (\<lambda>kd. fst kd = k) kds)))])
       (group_keys (map fst kds))"

definition group_stage :: "(doc \<Rightarrow> val) \<Rightarrow> string \<Rightarrow> (doc list \<Rightarrow> val) \<Rightarrow> doc list \<Rightarrow> doc list" where
  "group_stage idexpr out acc ds = group_keyed out acc (map (\<lambda>d. (idexpr d, d)) ds)"

text \<open>
  Query filters, as \<open>find\<close>, \<open>update_one\<close>, \<open>$match\<close> and \<open>$lookup\<close> read them.
  \<open>{name: v}\<close> with a plain value \<open>v\<close> holds of a document whose field equals \<open>v\<close>, or
  is an array with an element equal to \<open>v\<close>; a missing field matches \<open>v = null\<close>.
\<close>

definition query_eq :: "string \<Rightarrow> val \<Rightarrow> doc \<Rightarrow> bool" where
  "query_eq k v d =
     (case map_of d k of
        None \<Rightarrow> v = VNull
      | Some (VArr xs) \<Rightarrow> VArr xs = v \<or> v \<in> set xs
      | Some w \<Rightarrow> w = v)"

text \<open>\<open>{name: {"$exists": True}}\<close>: the document has the field, whatever its value.\<close>

definition query_exists :: "string \<Rightarrow> doc \<Rightarrow> bool" where
  "query_exists k d = (map_of d k \<noteq> None)"

text \<open>
  \<open>{name: {"$gte": n}}\<close> for a number \<open>n\<close>: comparison operators compare within one
  type only, so the field must be a number at least \<open>n\<close>, or an array holding one.
\<close>

definition num_gte :: "rat \<Rightarrow> val \<Rightarrow> bool" where
  "num_gte n v = (case v of VNum x \<Rightarrow> n \<le> x | _ \<Rightarrow> False)"

definition query_gte :: "string \<Rightarrow> rat \<Rightarrow> doc \<Rightarrow> bool" where
  "query_gte k n d =
     (case map_of d k of
        Some (VArr xs) \<Rightarrow> list_ex (num_gte n) xs
      | Some v \<Rightarrow> num_gte n v
      | None \<Rightarrow> False)"

definition match_stage :: "(doc \<Rightarrow> bool) \<Rightarrow> doc list \<Rightarrow> doc list" where
  "match_stage q ds = filter q ds"

text \<open>
  The order of \<open>$sort\<close>: values of different types compare by type (null, then
  numbers, strings, documents, arrays, ObjectIds, booleans, dates), values of one type
  by value, strings byte by byte. The two sorting pipelines of the program sort on
  the output of \<open>$dateToString\<close> and of \<open>$avg\<close> (a string, a number or null), so how
  two documents or two arrays compare is left out: they count as equal here.
\<close>

fun bson_rank :: "val \<Rightarrow> nat" where
  "bson_rank VNull = 1"
| "bson_rank (VNum _) = 2"
| "bson_rank (VStr _) = 3"
| "bson_rank (VDoc _) = 4"
| "bson_rank (VArr _) = 5"
| "bson_rank (VOid _) = 7"
| "bson_rank (VBool _) = 8"
| "bson_rank (VDate _ _ _ _) = 9"

definition bson_le :: "val \<Rightarrow> val \<Rightarrow> bool" where
  "bson_le a b =
     (case (a, b) of
        (VNum x, VNum y) \<Rightarrow> x \<le> y
      | (VStr x, VStr y) \<Rightarrow> x \<le> y
      | (VOid x, VOid y) \<Rightarrow> x \<le> y
      | (VBool x, VBool y) \<Rightarrow> x \<le> y
      | (VDate y m d t, VDate y' m' d' t') \<Rightarrow>
          y < y' \<or> (y = y' \<and> (m < m' \<or> (m = m' \<and> (d < d' \<or> (d = d' \<and> t \<le> t')))))
      | _ \<Rightarrow> bson_rank a \<le> bson_rank b)"

fun insert_by :: "('a \<Rightarrow> 'a \<Rightarrow> bool) \<Rightarrow> 'a \<Rightarrow> 'a list \<Rightarrow> 'a list" where
  "insert_by le x [] = [x]"
| "insert_by le x (y # ys) = (if le x y then x # y # ys else y # insert_by le x ys)"

definition sort_by :: "('a \<Rightarrow> 'a \<Rightarrow> bool) \<Rightarrow> 'a list \<Rightarrow> 'a list" where
  "sort_by le xs = foldr (insert_by le) xs []"

text \<open>
  \<open>{"$sort": {name: 1}}\<close> is \<open>Asc\<close>, \<open>{"$sort": {name: -1}}\<close> is \<open>Desc\<close>. Documents with
  equal keys keep their input order.
\<close>

datatype direction = Asc | Desc

fun sort_stage :: "string \<Rightarrow> direction \<Rightarrow> doc list \<Rightarrow> doc list" where
  "sort_stage k Asc ds = sort_by (\<lambda>a b. bson_le (field_path k a) (field_path k b)) ds"
| "sort_stage k Desc ds = sort_by (\<lambda>a b. bson_le (field_path k b) (field_path k a)) ds"

text \<open>
  \<open>{"$lookup": {"from": c, "localField": lk, "foreignField": fk, "as": out}}\<close>: every
  input document gets, in field \<open>out\<close>, the array of the documents of \<open>c\<close> whose
  \<open>fk\<close> equals its \<open>lk\<close> (as a query filter does; the elements of an array-valued
  \<open>lk\<close> are matched one by one, a missing \<open>lk\<close> as null).
\<close>

definition lookup_matches :: "val \<Rightarrow> string \<Rightarrow> doc \<Rightarrow> bool" where
  "lookup_matches l fk f =
     (case l of VArr xs \<Rightarrow> list_ex (\<lambda>x. query_eq fk x f) xs | _ \<Rightarrow> query_eq fk l f)"

definition lookup_stage :: "doc list \<Rightarrow> string \<Rightarrow> string \<Rightarrow> string \<Rightarrow> doc list \<Rightarrow> doc list" where
  "lookup_stage from lk fk out ds =
     map (\<lambda>d. AList.update out
                 (VArr (map VDoc (filter (lookup_matches (field_path lk d) fk) from))) d) ds"

text \<open>\<open>{"$size": e}\<close> raises unless \<open>e\<close> is an array.\<close>

definition size_expr :: "val \<Rightarrow> exn + val" where
  "size_expr v =
     (case v of
        VArr xs \<Rightarrow> Inr (VNum (of_nat (length xs)))
      | _ \<Rightarrow> Inl (OperationFailure ''The argument to $size must be an array''))"

text \<open>
  \<open>{"$multiply": [a, b]}\<close>, operand by operand: a number is multiplied in, null (or a
  missing field) makes the result null, anything else raises.
\<close>

definition multiply_expr :: "arith \<Rightarrow> val \<Rightarrow> val \<Rightarrow> exn + val" where
  "multiply_expr ar a b =
     (case a of
        VNum x \<Rightarrow>
          (case b of
             VNum y \<Rightarrow> Inr (VNum (mul ar x y))
           | VNull \<Rightarrow> Inr VNull
           | _ \<Rightarrow> Inl (OperationFailure ''$multiply only supports numeric types''))
      | VNull \<Rightarrow> Inr VNull
      | _ \<Rightarrow> Inl (OperationFailure ''$multiply only supports numeric types''))"

text \<open>A stage that evaluates an expression on every document fails with the first error.\<close>

fun map_exn :: "('a \<Rightarrow> exn + 'b) \<Rightarrow> 'a list \<Rightarrow> exn + 'b list" where
  "map_exn f [] = Inr []"
| "map_exn f (x # xs) =
     (case f x of
        Inl e \<Rightarrow> Inl e
      | Inr y \<Rightarrow> (case map_exn f xs of Inl e \<Rightarrow> Inl e | Inr ys \<Rightarrow> Inr (y # ys)))"

text \<open>
  \<open>{"$dateToString": {"format": "%Y-%m", "date": e}}\<close>. A date gives its four-digit
  year and two-digit month; an ObjectId counts as the date of its leading four bytes,
  seconds since 1970; null (or a missing field) gives null, as no \<open>onNull\<close> is given;
  anything else raises.
\<close>

definition digit :: "nat \<Rightarrow> char" where
  "digit n = ''0123456789'' ! (n mod 10)"

definition format_Ym :: "nat \<Rightarrow> nat \<Rightarrow> string" where
  "format_Ym y m =
     [digit (y div 1000), digit (y div 100), digit (y div 10), digit y] @ ''-'' @
     [digit (m div 10), digit m]"

definition civil_from_days :: "nat \<Rightarrow> nat \<times> nat" where
  "civil_from_days z =
     (let z' = z + 719468;
          era = z' div 146097;
          doe = z' mod 146097;
          yoe = (doe - doe div 1460 + doe div 36524 - doe div 146096) div 365;
          doy = doe - (365 * yoe + yoe div 4 - yoe div 100);
          mp = (5 * doy + 2) div 153;
          m = (if mp < 10 then mp + 3 else mp - 9);
          y = yoe + era * 400
      in (if m \<le> 2 then y + 1 else y, m))"

definition date_to_string_Ym :: "val \<Rightarrow> exn + val" where
  "date_to_string_Ym v =
     (case v of
        VNull \<Rightarrow> Inr VNull
      | VDate y m d t \<Rightarrow>
          if y \<le> 9999 then Inr (VStr (format_Ym y m))
          else Inl (OperationFailure ''$dateToString: year out of range'')
      | VOid bs \<Rightarrow>
          (case civil_from_days (foldl (\<lambda>a b. 256 * a + b) 0 (take 4 bs) div 86400) of
             (y, m) \<Rightarrow> Inr (VStr (format_Ym y m)))
      | _ \<Rightarrow> Inl (OperationFailure ''$dateToString: can't convert to Date''))"

section \<open>Collection operations of the driver\<close>

text \<open>
  A call that writes returns what the Python call returns or raises (\<open>Inl\<close> the
  exception), together with the database as the call leaves it.
\<close>

type_synonym 'a outcome = "(exn + 'a) \<times> db"

text \<open>
  \<open>ObjectId(oid)\<close> for a string: a string of length 24 is read by \<open>bytes.fromhex\<close>,
  which takes two hexadecimal digits per byte and skips ASCII whitespace before a
  pair (so that a string with blanks gives fewer than twelve bytes); any other string
  raises \<open>InvalidId\<close>, whose message names the string by its \<open>repr\<close>.
\<close>

definition hex_val :: "char \<Rightarrow> nat option" where
  "hex_val c =
     (let n = (of_char c :: nat)
      in if 48 \<le> n \<and> n \<le> 57 then Some (n - 48)
         else if 97 \<le> n \<and> n \<le> 102 then Some (n - 87)
         else if 65 \<le> n \<and> n \<le> 70 then Some (n - 55)
         else None)"

definition is_space :: "char \<Rightarrow> bool" where
  "is_space c = (let n = (of_char c :: nat) in (9 \<le> n \<and> n \<le> 13) \<or> n = 32)"

fun fromhex :: "string \<Rightarrow> nat list option" where
  "fromhex [] = Some []"
| "fromhex [c] = (if is_space c then Some [] else None)"
| "fromhex (c # c' # cs) =
     (if is_space c then fromhex (c' # cs)
      else (case (hex_val c, hex_val c') of
              (Some a, Some b) \<Rightarrow>
                (case fromhex cs of None \<Rightarrow> None | Some bs \<Rightarrow> Some ((16 * a + b) # bs))
            | _ \<Rightarrow> None))"

text \<open>
  Python's \<open>repr\<close> of a string: quoted with \<open>'\<close>, or with \<open>"\<close> when the string has a
  \<open>'\<close> and no \<open>"\<close>; the quote and the backslash are escaped, and so are the
  characters that are not printable (a character is read as the code point of its
  number).
\<close>

definition hex_digit :: "nat \<Rightarrow> char" where
  "hex_digit n = ''0123456789abcdef'' ! (n mod 16)"

definition repr_char :: "char \<Rightarrow> char \<Rightarrow> string" where
  "repr_char q c =
     (let n = (of_char c :: nat)
      in if c = q \<or> n = 92 then [CHR 0x5C, c]
         else if n = 9 then [CHR 0x5C, CHR ''t'']
         else if n = 10 then [CHR 0x5C, CHR ''n'']
         else if n = 13 then [CHR 0x5C, CHR ''r'']
         else if n < 32 \<or> (127 \<le> n \<and> n \<le> 160) \<or> n = 173
         then [CHR 0x5C, CHR ''x'', hex_digit (n div 16), hex_digit n]
         else [c])"

definition repr :: "string \<Rightarrow> string" where
  "repr s =
     (let q = (if CHR 0x27 \<in> set s \<and> CHR 0x22 \<notin> set s then CHR 0x22 else CHR 0x27)
      in q # concat (map (repr_char q) s) @ [q])"

definition invalid_id :: "string \<Rightarrow> exn" where
  "invalid_id oid =
     InvalidId (repr oid @
       '' is not a valid ObjectId, it must be a 12-byte input or a 24-character hex string'')"

definition ObjectId :: "string \<Rightarrow> exn + val" where
  "ObjectId oid =
     (if length oid = 24
      then (case fromhex oid of Some bs \<Rightarrow> Inr (VOid bs) | None \<Rightarrow> Inl (invalid_id oid))
      else Inl (invalid_id oid))"

text \<open>The \<open>n\<close>-th \<open>ObjectId()\<close> of the driver's supply, as twelve bytes.\<close>

definition oid_bytes :: "nat \<Rightarrow> nat list" where
  "oid_bytes n =
     [n div 256 ^ 11 mod 256, n div 256 ^ 10 mod 256, n div 256 ^ 9 mod 256,
      n div 256 ^ 8 mod 256, n div 256 ^ 7 mod 256, n div 256 ^ 6 mod 256,
      n div 256 ^ 5 mod 256, n div 256 ^ 4 mod 256, n div 256 ^ 3 mod 256,
      n div 256 ^ 2 mod 256, n div 256 mod 256, n mod 256]"

text \<open>
  The key of a document in an index: the values of the indexed fields, a missing
  field as null. A unique index admits no two documents with the same key. Indexed
  arrays (multikey indexes, one entry per element) are not modelled: no indexed field
  of this program's documents is an array.
\<close>

definition index_key :: "string list \<Rightarrow> doc \<Rightarrow> val list" where
  "index_key ks d = map (\<lambda>k. field_path k d) ks"

definition all_indexes :: "db \<Rightarrow> string \<Rightarrow> index list" where
  "all_indexes s c = \<lparr>keys = [''_id''], unique = True\<rparr> # indexes s c"

definition duplicate_key :: "db \<Rightarrow> string \<Rightarrow> doc list \<Rightarrow> doc \<Rightarrow> bool" where
  "duplicate_key s c others d =
     list_ex (\<lambda>ix. unique ix \<and> list_ex (\<lambda>e. index_key (keys ix) e = index_key (keys ix) d) others)
       (all_indexes s c)"

text \<open>
  \<open>collection.insert_one(document)\<close>: the driver adds a fresh \<open>_id\<close> to a document
  that has none, the server refuses an array as \<open>_id\<close> and a duplicate key of a unique
  index, and otherwise stores the document. The result is the inserted \<open>_id\<close>.
\<close>

definition with_id :: "doc \<Rightarrow> db \<Rightarrow> doc \<times> db" where
  "with_id document s =
     (if map_of document ''_id'' = None
      then (document @ [(''_id'', VOid (oid_bytes (next_oid s)))],
            s\<lparr>next_oid := Suc (next_oid s)\<rparr>)
      else (document, s))"

definition insert_one :: "string \<Rightarrow> doc \<Rightarrow> db \<Rightarrow> val outcome" where
  "insert_one c document s =
     (case with_id document s of
        (d, s') \<Rightarrow>
          (case field_path ''_id'' d of
             VArr _ \<Rightarrow> (Inl (OperationFailure ''The _id field cannot be an array''), s')
           | _ \<Rightarrow>
             if duplicate_key s' c (colls s' c) d
             then (Inl (DuplicateKeyError ''E11000 duplicate key error''), s')
             else (Inr (field_path ''_id'' d), s'\<lparr>colls := (colls s')(c := colls s' c @ [d])\<rparr>)))"

text \<open>\<open>collection.insert_many(documents)\<close>, ordered: it stops at the first error.\<close>

fun insert_many :: "string \<Rightarrow> doc list \<Rightarrow> db \<Rightarrow> val list outcome" where
  "insert_many c [] s = (Inr [], s)"
| "insert_many c (d # ds) s =
     (case insert_one c d s of
        (Inl e, s') \<Rightarrow> (Inl e, s')
      | (Inr i, s') \<Rightarrow>
          (case insert_many c ds s' of
             (Inl e, s'') \<Rightarrow> (Inl e, s'')
           | (Inr is, s'') \<Rightarrow> (Inr (i # is), s'')))"

text \<open>
  \<open>collection.update_one(filter, update)\<close> changes the first document the filter
  matches, and no other. The write is refused when it moves the document to a key of
  a unique index that another document of the collection holds. The result holds
  \<open>matched_count\<close> and \<open>modified_count\<close>.
\<close>

record update_result =
  matched_count :: nat
  modified_count :: nat

fun split_first :: "('a \<Rightarrow> bool) \<Rightarrow> 'a list \<Rightarrow> ('a list \<times> 'a \<times> 'a list) option" where
  "split_first p [] = None"
| "split_first p (x # xs) =
     (if p x then Some ([], x, xs)
      else (case split_first p xs of
              None \<Rightarrow> None
            | Some (before, y, after) \<Rightarrow> Some (x # before, y, after)))"

definition update_conflict :: "db \<Rightarrow> string \<Rightarrow> doc list \<Rightarrow> doc \<Rightarrow> doc \<Rightarrow> bool" where
  "update_conflict s c others d d' =
     list_ex (\<lambda>ix. unique ix \<and> index_key (keys ix) d' \<noteq> index_key (keys ix) d \<and>
                  list_ex (\<lambda>e. index_key (keys ix) e = index_key (keys ix) d') others)
       (all_indexes s c)"

definition update_one :: "string \<Rightarrow> (doc \<Rightarrow> bool) \<Rightarrow> (doc \<Rightarrow> doc) \<Rightarrow> db \<Rightarrow> update_result outcome" where
  "update_one c q u s =
     (case split_first q (colls s c) of
        None \<Rightarrow> (Inr \<lparr>matched_count = 0, modified_count = 0\<rparr>, s)
      | Some (before, d, after) \<Rightarrow>
          if u d = d then (Inr \<lparr>matched_count = 1, modified_count = 0\<rparr>, s)
          else if update_conflict s c (before @ after) d (u d)
          then (Inl (DuplicateKeyError ''E11000 duplicate key error''), s)
          else (Inr \<lparr>matched_count = 1, modified_count = 1\<rparr>,
                s\<lparr>colls := (colls s)(c := before @ u d # after)\<rparr>))"

text \<open>\<open>{"$set": {name: v}}\<close> writes the field, adding it when the document has none.\<close>

definition set_field :: "string \<Rightarrow> val \<Rightarrow> doc \<Rightarrow> doc" where
  "set_field k v d = AList.update k v d"

text \<open>
  \<open>collection.create_index(keys, unique=...)\<close>: declaring again an index that exists
  with the same options does nothing; the same fields with other options raise; a
  unique index over documents that share a key raises; otherwise the index is built.
  The result is the name of the index, as \<open>email_1\<close> or \<open>title_1_category_1\<close>.
\<close>

fun index_name :: "string list \<Rightarrow> string" where
  "index_name [] = []"
| "index_name [k] = k @ ''_1''"
| "index_name (k # ks) = k @ ''_1_'' @ index_name ks"

definition create_index :: "string \<Rightarrow> index \<Rightarrow> db \<Rightarrow> string outcome" where
  "create_index c ix s =
     (if ix \<in> set (indexes s c) then (Inr (index_name (keys ix)), s)
      else if list_ex (\<lambda>j. keys j = keys ix) (indexes s c)
      then (Inl (OperationFailure ''An equivalent index already exists with different options''), s)
      else if unique ix \<and> \<not> distinct (map (index_key (keys ix)) (colls s c))
      then (Inl (DuplicateKeyError ''E11000 duplicate key error''), s)
      else (Inr (index_name (keys ix)), s\<lparr>indexes := (indexes s)(c := indexes s c @ [ix])\<rparr>))"

section \<open>Part 2: the documents the generator writes\<close>

text \<open>
  The dict literals of the population loops, with what \<open>random\<close> and \<open>fake\<close> drew as
  parameters; \<open>i\<close> is the loop counter, and the identifier is \<open>f"e{i+1:03}"\<close>.
\<close>

fun decimal :: "nat \<Rightarrow> string" where
  "decimal n = (if n < 10 then [digit n] else decimal (n div 10) @ [digit n])"

declare decimal.simps [simp del]

definition ident :: "char \<Rightarrow> nat \<Rightarrow> string" where
  "ident c i =
     (let ds = decimal (i + 1) in c # replicate (3 - length ds) CHR ''0'' @ ds)"

definition enrollment_doc :: "nat \<Rightarrow> string \<Rightarrow> string \<Rightarrow> val \<Rightarrow> rat \<Rightarrow> bool \<Rightarrow> doc" where
  "enrollment_doc i student_id course_id enrolled_at progress completed =
     [(''enrollmentId'', VStr (ident CHR ''e'' i)),
      (''studentId'', VStr student_id),
      (''courseId'', VStr course_id),
      (''enrolledAt'', enrolled_at),
      (''progress'', VNum progress),
      (''completed'', VBool completed)]"

definition submission_doc :: "nat \<Rightarrow> string \<Rightarrow> string \<Rightarrow> val \<Rightarrow> string \<Rightarrow> rat \<Rightarrow> doc" where
  "submission_doc i assignment_id student_id submitted_at content grade =
     [(''submissionId'', VStr (ident CHR ''s'' i)),
      (''assignmentId'', VStr assignment_id),
      (''studentId'', VStr student_id),
      (''submittedAt'', submitted_at),
      (''content'', VStr content),
      (''grade'', VNum grade)]"

section \<open>Part 3: the accessors\<close>

definition add_student_user :: "doc \<Rightarrow> db \<Rightarrow> val outcome" where
  "add_student_user user s = insert_one ''users'' user s"

definition enroll_student :: "doc \<Rightarrow> db \<Rightarrow> val outcome" where
  "enroll_student enrollment s = insert_one ''enrollments'' enrollment s"

definition update_assignment_grade :: "string \<Rightarrow> val \<Rightarrow> db \<Rightarrow> update_result outcome" where
  "update_assignment_grade submission_id grade s =
     (case ObjectId submission_id of
        Inl e \<Rightarrow> (Inl e, s)
      | Inr oid \<Rightarrow>
          update_one ''assignment_submissions'' (query_eq ''_id'' oid) (set_field ''grade'' grade) s)"

definition soft_delete_user :: "string \<Rightarrow> db \<Rightarrow> update_result outcome" where
  "soft_delete_user user_id s =
     update_one ''users'' (query_eq ''userId'' (VStr user_id)) (set_field ''isActive'' (VBool False)) s"

section \<open>Part 4: the aggregation pipelines\<close>

text \<open>Count total enrollments per course.\<close>

definition count_enrollments_per_course :: "db \<Rightarrow> doc list" where
  "count_enrollments_per_course s =
     group_stage (field_path ''courseId'') ''totalEnrollments'' acc_sum_1 (colls s ''enrollments'')"

text \<open>Completion rate by course.\<close>

definition completion_rate_by_course :: "arith \<Rightarrow> db \<Rightarrow> doc list" where
  "completion_rate_by_course ar s =
     group_stage (field_path ''courseId'') ''avgProgress'' (acc_avg ar ''progress'')
       (colls s ''enrollments'')"

text \<open>Student engagement metrics (average progress per course).\<close>

definition student_engagement_metrics :: "arith \<Rightarrow> db \<Rightarrow> doc list" where
  "student_engagement_metrics ar s =
     group_stage (field_path ''courseId'') ''avgProgress'' (acc_avg ar ''progress'')
       (colls s ''enrollments'')"

text \<open>Calculate average course rating.\<close>

definition average_course_rating :: "arith \<Rightarrow> db \<Rightarrow> doc list" where
  "average_course_rating ar s =
     group_stage (field_path ''courseId'') ''avgRating'' (acc_avg ar ''rating'')
       (match_stage (query_exists ''rating'') (colls s ''courses''))"

text \<open>Average course rating per instructor.\<close>

definition average_rating_per_instructor :: "arith \<Rightarrow> db \<Rightarrow> doc list" where
  "average_rating_per_instructor ar s =
     group_stage (field_path ''instructorId'') ''averageRating'' (acc_avg ar ''rating'')
       (match_stage (query_exists ''rating'') (colls s ''courses''))"

text \<open>Top-performing students (avg grade at least 90).\<close>

definition top_performing_students :: "arith \<Rightarrow> db \<Rightarrow> doc list" where
  "top_performing_students ar s =
     sort_stage ''averageGrade'' Desc
       (match_stage (query_gte ''averageGrade'' 90)
          (group_stage (field_path ''studentId'') ''averageGrade'' (acc_avg ar ''grade'')
             (colls s ''submissions'')))"

text \<open>
  Revenue generated per instructor. The \<open>$project\<close> stage keeps \<open>_id\<close> and
  \<open>instructorId\<close> and computes \<open>revenue\<close>.
\<close>

definition project_revenue :: "arith \<Rightarrow> doc \<Rightarrow> exn + doc" where
  "project_revenue ar d =
     (case size_expr (field_path ''enrolls'' d) of
        Inl e \<Rightarrow> Inl e
      | Inr n \<Rightarrow>
          (case multiply_expr ar n (field_path ''price'' d) of
             Inl e \<Rightarrow> Inl e
           | Inr r \<Rightarrow>
               Inr (filter (\<lambda>kv. fst kv = ''_id'' \<or> fst kv = ''instructorId'') d @ [(''revenue'', r)])))"

definition revenue_per_instructor :: "arith \<Rightarrow> db \<Rightarrow> exn + doc list" where
  "revenue_per_instructor ar s =
     (case map_exn (project_revenue ar)
             (lookup_stage (colls s ''enrollments'') ''courseId'' ''courseId'' ''enrolls''
                (colls s ''courses'')) of
        Inl e \<Rightarrow> Inl e
      | Inr ps \<Rightarrow>
          Inr (group_stage (field_path ''instructorId'') ''totalRevenue'' (acc_sum ar ''revenue'') ps))"

text \<open>Monthly enrollment trends.\<close>

definition monthly_enrollment_trends :: "db \<Rightarrow> exn + doc list" where
  "monthly_enrollment_trends s =
     (case map_exn (\<lambda>d. date_to_string_Ym (field_path ''enrollmentDate'' d)) (colls s ''enrollments'') of
        Inl e \<Rightarrow> Inl e
      | Inr ks \<Rightarrow>
          Inr (sort_stage ''_id'' Asc
                 (group_keyed ''totalEnrollments'' acc_sum_1 (zip ks (colls s ''enrollments'')))))"

section \<open>Part 5: index creation\<close>

definition create_indexes :: "db \<Rightarrow> val outcome" where
  "create_indexes s =
     (case create_index ''users'' \<lparr>keys = [''email''], unique = True\<rparr> s of
        (Inl e, s1) \<Rightarrow> (Inl e, s1)
      | (Inr _, s1) \<Rightarrow>
     (case create_index ''courses'' \<lparr>keys = [''title'', ''category''], unique = False\<rparr> s1 of
        (Inl e, s2) \<Rightarrow> (Inl e, s2)
      | (Inr _, s2) \<Rightarrow>
     (case create_index ''assignments'' \<lparr>keys = [''dueDate''], unique = False\<rparr> s2 of
        (Inl e, s3) \<Rightarrow> (Inl e, s3)
      | (Inr _, s3) \<Rightarrow>
     (case create_index ''enrollments'' \<lparr>keys = [''studentId'', ''courseId''], unique = False\<rparr> s3 of
        (Inl e, s4) \<Rightarrow> (Inl e, s4)
      | (Inr _, s4) \<Rightarrow> (Inr VNull, s4)))))"

section \<open>Part 6: error handling\<close>

text \<open>
  \<open>insert_with_error_handling(collection, document)\<close>. Its first argument here is the
  \<open>insert_one\<close> of the collection passed; the result is the outcome of the call (the
  value returned, \<open>None\<close>, or an exception), the state the insert left, and the lines
  printed.
\<close>

definition insert_with_error_handling ::
    "(doc \<Rightarrow> 's \<Rightarrow> (exn + 'r) \<times> 's) \<Rightarrow> doc \<Rightarrow> 's \<Rightarrow> (exn + val) \<times> 's \<times> string list" where
  "insert_with_error_handling collection_insert_one document s =
     (case collection_insert_one document s of
        (Inr _, s') \<Rightarrow> (Inr VNull, s', [])
      | (Inl e, s') \<Rightarrow> (Inr VNull, s', [''Insertion failed: '' @ str_exn e]))"

section \<open>Quantities the properties speak of\<close>


definition is_array :: "val \<Rightarrow> bool" where
  "is_array v = (case v of VArr _ \<Rightarrow> True | _ \<Rightarrow> False)"



text \<open>
  The number of stored enrollments that \<open>$lookup\<close> matches to course \<open>c\<close>: those whose
  \<open>courseId\<close> is the course's.
\<close>

definition enrollment_count :: "db \<Rightarrow> doc \<Rightarrow> nat" where
  "enrollment_count s c =
     length (filter (lookup_matches (field_path ''courseId'' c) ''courseId'')
               (colls s ''enrollments''))"





text \<open>The database \<open>s\<close> with collection \<open>courses\<close> holding the documents \<open>cs\<close>.\<close>

definition with_courses :: "db \<Rightarrow> doc list \<Rightarrow> db" where
  "with_courses s cs = s\<lparr>colls := (colls s)(''courses'' := cs)\<rparr>"

section \<open>Example states\<close>

text \<open>
  Three enrollments as the generator writes them, enrolled in January, February and
  March 2024, inserted into the empty database.
\<close>

definition three_months :: db where
  "three_months =
     snd (insert_many ''enrollments''
            [enrollment_doc 0 ''u002'' ''c001'' (VDate 2024 1 15 0) 50 False,
             enrollment_doc 1 ''u003'' ''c002'' (VDate 2024 2 20 0) 10 False,
             enrollment_doc 2 ''u002'' ''c003'' (VDate 2024 3 5 0) 100 True] empty_db)"

text \<open>One submission as the generator writes it, graded 70.\<close>

definition one_submission :: db where
  "one_submission =
     snd (insert_many ''submissions''
            [submission_doc 0 ''a001'' ''u002'' (VDate 2024 5 1 0) ''my answer'' 70] empty_db)"

text \<open>Two users, both active.\<close>

definition two_users :: db where
  "two_users =
     snd (insert_many ''users''
            [[(''userId'', VStr ''u001''), (''email'', VStr ''ada@example.org''),
              (''role'', VStr ''student''), (''isActive'', VBool True)],
             [(''userId'', VStr ''u002''), (''email'', VStr ''bob@example.org''),
              (''role'', VStr ''instructor''), (''isActive'', VBool True)]] empty_db)"

text \<open>
  Submissions of four students: \<open>u001\<close> with grades 90 and 90, \<open>u002\<close> with 89 and
  90, \<open>u003\<close> with 100, \<open>u004\<close> with 95.
\<close>

definition graded_submissions :: db where
  "graded_submissions =
     empty_db\<lparr>colls := (\<lambda>_. [])(''submissions'' :=
       [[(''submissionId'', VStr ''s001''), (''studentId'', VStr ''u001''), (''grade'', VNum 90)],
        [(''submissionId'', VStr ''s002''), (''studentId'', VStr ''u002''), (''grade'', VNum 89)],
        [(''submissionId'', VStr ''s003''), (''studentId'', VStr ''u003''), (''grade'', VNum 100)],
        [(''submissionId'', VStr ''s004''), (''studentId'', VStr ''u002''), (''grade'', VNum 90)],
        [(''submissionId'', VStr ''s005''), (''studentId'', VStr ''u004''), (''grade'', VNum 95)],
        [(''submissionId'', VStr ''s006''), (''studentId'', VStr ''u001''), (''grade'', VNum 90)]])\<rparr>"

text \<open>
  The example scenario: instructor \<open>u1\<close>, student \<open>u2\<close>, course \<open>c1\<close> of \<open>u1\<close> priced
  100, and one enrollment of \<open>u2\<close> in \<open>c1\<close>.
\<close>

definition example_scenario :: db where
  "example_scenario =
     empty_db\<lparr>colls := (\<lambda>_. [])
       (''users'' := [[(''userId'', VStr ''u1''), (''role'', VStr ''instructor'')],
                      [(''userId'', VStr ''u2''), (''role'', VStr ''student'')]],
        ''courses'' := [[(''courseId'', VStr ''c1''), (''instructorId'', VStr ''u1''),
                         (''price'', VNum 100)]],
        ''enrollments'' := [[(''enrollmentId'', VStr ''e1''), (''studentId'', VStr ''u2''),
                             (''courseId'', VStr ''c1'')]])\<rparr>"


text \<open>The two users after \<open>create_indexes\<close>, and two users who share an email.\<close>

definition indexed_users :: db where
  "indexed_users = snd (create_indexes two_users)"

definition same_email_users :: db where
  "same_email_users =
     snd (insert_many ''users''
            [[(''userId'', VStr ''u001''), (''email'', VStr ''ada@example.org'')],
             [(''userId'', VStr ''u002''), (''email'', VStr ''ada@example.org'')]] empty_db)"

section \<open>Generated identifiers\<close>

lemma oid_bytes_small: "n < 256 \<Longrightarrow> oid_bytes n = [0, 0, 0, 0, 0, 0, 0, 0, 0, 0, 0, n]"
  by (simp add: oid_bytes_def)

section \<open>Grouping\<close>

lemma set_group_keys: "set (group_keys ks) = set ks"
  by (simp add: group_keys_def)

lemma distinct_group_keys: "distinct (group_keys ks)"
  by (simp add: group_keys_def)

lemma filter_eq_distinct:
  "distinct xs \<Longrightarrow> filter (\<lambda>x. x = k) xs = (if k \<in> set xs then [k] else [])"
  by (induction xs) auto

lemma field_path_id_group [simp]: "field_path ''_id'' ((''_id'', k) # r) = k"
  by (simp add: field_path_def)

text \<open>The groups with a given key: exactly one when a document has the key, none otherwise.\<close>

lemma group_keyed_lookup:
  "filter (\<lambda>r. field_path ''_id'' r = k) (group_keyed out acc kds) =
     (if k \<in> fst ` set kds
      then [[(''_id'', k), (out, acc (map snd (filter (\<lambda>kd. fst kd = k) kds)))]]
      else [])"
proof -
  let ?g = "\<lambda>k. [(''_id'', k), (out, acc (map snd (filter (\<lambda>kd. fst kd = k) kds)))]"
  have "filter (\<lambda>r. field_path ''_id'' r = k) (map ?g (group_keys (map fst kds)))
        = map ?g (filter (\<lambda>x. x = k) (group_keys (map fst kds)))"
    by (simp add: filter_map comp_def)
  also have "\<dots> = (if k \<in> fst ` set kds then [?g k] else [])"
    by (simp add: filter_eq_distinct distinct_group_keys set_group_keys)
  finally show ?thesis by (simp add: group_keyed_def)
qed

lemma group_stage_lookup:
  "filter (\<lambda>r. field_path ''_id'' r = k) (group_stage idexpr out acc ds) =
     (if k \<in> idexpr ` set ds
      then [[(''_id'', k), (out, acc (filter (\<lambda>d. idexpr d = k) ds))]]
      else [])"
  by (simp add: group_stage_def group_keyed_lookup filter_map comp_def image_image)

section \<open>Per-course enrollment count\<close>

text \<open>
  Claim C3, as the code has it. The pipeline runs over the enrollments, not over the
  courses: for every key \<open>k\<close>, it reports one group for \<open>k\<close>, with the number of
  Enrollment records whose \<open>courseId\<close> is \<open>k\<close>, when there is such a record, and no
  group for \<open>k\<close> when there is none. A course without enrollments is left out of the
  result, not reported with count 0.
\<close>

theorem enrollment_count_per_enrolled_course:
  "filter (\<lambda>r. field_path ''_id'' r = k) (count_enrollments_per_course s) =
     (let n = length (filter (\<lambda>e. field_path ''courseId'' e = k) (colls s ''enrollments''))
      in if n = 0 then [] else [[(''_id'', k), (''totalEnrollments'', VNum (of_nat n))]])"
  by (auto simp add: count_enrollments_per_course_def group_stage_lookup acc_sum_1_def
        Let_def filter_empty_conv)

text \<open>
  The theorem at a state with two enrollments in course \<open>c001\<close> and one in \<open>c002\<close>:
  the group of \<open>c001\<close> counts 2.
\<close>

theorem enrollment_count_per_enrolled_course_witness:
  "filter (\<lambda>r. field_path ''_id'' r = VStr ''c001'')
     (count_enrollments_per_course
        \<lparr>colls = (\<lambda>_. [])(''enrollments'' :=
           [[(''enrollmentId'', VStr ''e001''), (''courseId'', VStr ''c001'')],
            [(''enrollmentId'', VStr ''e002''), (''courseId'', VStr ''c002'')],
            [(''enrollmentId'', VStr ''e003''), (''courseId'', VStr ''c001'')]]),
         indexes = (\<lambda>_. []), next_oid = 0\<rparr>) =
   [[(''_id'', VStr ''c001''), (''totalEnrollments'', VNum 2)]]"
  using enrollment_count_per_enrolled_course [of "VStr ''c001''"
    "\<lparr>colls = (\<lambda>_. [])(''enrollments'' :=
           [[(''enrollmentId'', VStr ''e001''), (''courseId'', VStr ''c001'')],
            [(''enrollmentId'', VStr ''e002''), (''courseId'', VStr ''c002'')],
            [(''enrollmentId'', VStr ''e003''), (''courseId'', VStr ''c001'')]]),
         indexes = (\<lambda>_. []), next_oid = 0\<rparr>"]
  by (simp add: field_path_def)

text \<open>
  Claim C3 as stated fails: with course \<open>c001\<close> stored and no enrollment, the query
  returns nothing, so \<open>c001\<close> is not reported with count 0.
\<close>

theorem zero_enrollment_course_omitted:
  "colls \<lparr>colls = (\<lambda>_. [])(''courses'' := [[(''courseId'', VStr ''c001'')]]),
          indexes = (\<lambda>_. []), next_oid = 0\<rparr> ''courses'' = [[(''courseId'', VStr ''c001'')]]
   \<and> count_enrollments_per_course
        \<lparr>colls = (\<lambda>_. [])(''courses'' := [[(''courseId'', VStr ''c001'')]]),
         indexes = (\<lambda>_. []), next_oid = 0\<rparr> = []"
  by (simp add: count_enrollments_per_course_def group_stage_def group_keyed_def group_keys_def)

section \<open>Completion rate and engagement metric\<close>

text \<open>
  Claim C9: the completion-rate-by-course aggregation and the student-engagement
  aggregation are the same function of the stored state: on every database they
  return the same groups with the same average progress.
\<close>

theorem completion_rate_is_engagement_metric:
  "completion_rate_by_course ar s = student_engagement_metrics ar s"
  by (simp add: completion_rate_by_course_def student_engagement_metrics_def)

section \<open>Monthly enrollment trend\<close>

lemma map_exn_const: "\<forall>d\<in>set ds. f d = Inr v \<Longrightarrow> map_exn f ds = Inr (map (\<lambda>_. v) ds)"
  by (induction ds) simp_all

lemma remdups_replicate_Suc: "remdups (replicate (Suc n) v) = [v]"
  by (induction n) auto

lemma group_keys_const: "ds \<noteq> [] \<Longrightarrow> group_keys (map (\<lambda>_. v) ds) = [v]"
proof -
  assume "ds \<noteq> []"
  then obtain n where "length ds = Suc n" by (cases ds) auto
  moreover have "map (\<lambda>_. v) ds = replicate (length ds) v"
    by (rule map_replicate_const)
  ultimately have "rev (map (\<lambda>_. v) ds) = replicate (Suc n) v"
    by (simp only: rev_replicate)
  then show ?thesis
    by (simp only: group_keys_def remdups_replicate_Suc) simp
qed

lemma group_keyed_const:
  assumes "ds \<noteq> []"
  shows "group_keyed out acc (zip (map (\<lambda>_. v) ds) ds) = [[(''_id'', v), (out, acc ds)]]"
proof -
  have keys: "map fst (zip (map (\<lambda>_. v) ds) ds) = map (\<lambda>_. v) ds"
    by simp
  have "\<forall>kd\<in>set (zip (map (\<lambda>_. v) ds) ds). fst kd = v"
    by (auto dest: set_zip_leftD)
  then have "filter (\<lambda>kd. fst kd = v) (zip (map (\<lambda>_. v) ds) ds) = zip (map (\<lambda>_. v) ds) ds"
    by (simp add: filter_True)
  then have members: "map snd (filter (\<lambda>kd. fst kd = v) (zip (map (\<lambda>_. v) ds) ds)) = ds"
    by (simp add: map_snd_zip)
  show ?thesis
    unfolding group_keyed_def keys group_keys_const [OF assms] using members by simp
qed

lemma date_to_string_missing:
  "map_of e ''enrollmentDate'' = None \<Longrightarrow>
     date_to_string_Ym (field_path ''enrollmentDate'' e) = Inr VNull"
  by (simp add: field_path_def date_to_string_Ym_def)

lemma three_months_enrollments:
  "colls three_months ''enrollments'' =
       [[(''enrollmentId'', VStr ''e001''), (''studentId'', VStr ''u002''),
         (''courseId'', VStr ''c001''), (''enrolledAt'', VDate 2024 1 15 0),
         (''progress'', VNum 50), (''completed'', VBool False), (''_id'', VOid (oid_bytes 0))],
        [(''enrollmentId'', VStr ''e002''), (''studentId'', VStr ''u003''),
         (''courseId'', VStr ''c002''), (''enrolledAt'', VDate 2024 2 20 0),
         (''progress'', VNum 10), (''completed'', VBool False), (''_id'', VOid (oid_bytes 1))],
        [(''enrollmentId'', VStr ''e003''), (''studentId'', VStr ''u002''),
         (''courseId'', VStr ''c003''), (''enrolledAt'', VDate 2024 3 5 0),
         (''progress'', VNum 100), (''completed'', VBool True), (''_id'', VOid (oid_bytes 2))]]"
  by (simp add: three_months_def enrollment_doc_def ident_def decimal.simps digit_def
        insert_one_def with_id_def oid_bytes_small empty_db_def field_path_def duplicate_key_def all_indexes_def
        index_key_def numeral_2_eq_2)

text \<open>
  Claim C1 says that the monthly trend groups the enrollments by the year and month
  of the timestamp the generator writes, one group per month. The generator writes
  the timestamp in field \<open>enrolledAt\<close>; the pipeline reads \<open>$enrollmentDate\<close>. What
  the code does instead: whenever no stored enrollment has a field \<open>enrollmentDate\<close>
  (as after the generator has run), every enrollment gets the key null and the query
  returns a single group, whatever the months of enrollment.
\<close>

theorem monthly_trend_without_enrollmentDate:
  assumes "\<forall>e\<in>set (colls s ''enrollments''). map_of e ''enrollmentDate'' = None"
    and "colls s ''enrollments'' \<noteq> []"
  shows "monthly_enrollment_trends s =
           Inr [[(''_id'', VNull),
                 (''totalEnrollments'', VNum (of_nat (length (colls s ''enrollments''))))]]"
proof -
  let ?es = "colls s ''enrollments''"
  have "map_exn (\<lambda>d. date_to_string_Ym (field_path ''enrollmentDate'' d)) ?es
          = Inr (map (\<lambda>_. VNull) ?es)"
    using assms(1) by (intro map_exn_const) (simp add: date_to_string_missing)
  then show ?thesis
    by (simp add: monthly_enrollment_trends_def group_keyed_const [OF assms(2)]
          sort_by_def acc_sum_1_def)
qed

text \<open>
  The generator's enrollments of January, February and March 2024 come back as one
  group with key null and count 3, not as three monthly groups.
\<close>

theorem monthly_trend_without_enrollmentDate_witness:
  "monthly_enrollment_trends three_months
     = Inr [[(''_id'', VNull), (''totalEnrollments'', VNum 3)]]"
proof -
  have h1: "\<forall>e\<in>set (colls three_months ''enrollments''). map_of e ''enrollmentDate'' = None"
    by (simp add: three_months_enrollments)
  have h2: "colls three_months ''enrollments'' \<noteq> []"
    by (simp add: three_months_enrollments)
  have h3: "length (colls three_months ''enrollments'') = 3"
    by (simp add: three_months_enrollments)
  show ?thesis
    using monthly_trend_without_enrollmentDate [OF h1 h2] by (simp only: h3) simp
qed

section \<open>Updating one document\<close>

lemma split_first_None: "split_first p xs = None \<longleftrightarrow> (\<forall>x\<in>set xs. \<not> p x)"
proof (induction xs)
  case Nil
  show ?case by simp
next
  case (Cons x xs)
  show ?case
  proof (cases "split_first p xs")
    case None
    with Cons show ?thesis by simp
  next
    case (Some t)
    with Cons show ?thesis by (cases t) simp
  qed
qed

lemma split_first_Some:
  "split_first p xs = Some (before, d, after) \<Longrightarrow>
     xs = before @ d # after \<and> p d \<and> (\<forall>x\<in>set before. \<not> p x)"
  by (induction xs arbitrary: before) (auto split: if_splits option.splits)

text \<open>An update leaves the state alone or rewrites the first matching document in place.\<close>

lemma update_one_cases:
  assumes "update_one c q u s = (r, s')"
  shows "s' = s \<or>
         (\<exists>before d after. colls s c = before @ d # after \<and> q d \<and> (\<forall>x\<in>set before. \<not> q x) \<and>
            s' = s\<lparr>colls := (colls s)(c := before @ u d # after)\<rparr>)"
proof (cases "split_first q (colls s c)")
  case None
  with assms show ?thesis by (simp add: update_one_def)
next
  case (Some t)
  obtain before d after where t: "t = (before, d, after)" by (cases t) auto
  from Some t have "split_first q (colls s c) = Some (before, d, after)" by simp
  then have "colls s c = before @ d # after \<and> q d \<and> (\<forall>x\<in>set before. \<not> q x)"
    by (rule split_first_Some)
  with assms Some t show ?thesis
    by (auto simp add: update_one_def split: if_splits)
qed

lemma update_one_no_match:
  "\<forall>x\<in>set (colls s c). \<not> q x \<Longrightarrow>
     update_one c q u s = (Inr \<lparr>matched_count = 0, modified_count = 0\<rparr>, s)"
  using split_first_None [of q "colls s c"] by (simp add: update_one_def)

lemma update_one_frame:
  assumes "update_one c q u s = (r, s')"
  shows "indexes s' = indexes s" "next_oid s' = next_oid s" "c' \<noteq> c \<Longrightarrow> colls s' c' = colls s c'"
  using update_one_cases [OF assms] by auto

lemma map_of_set_field: "map_of (set_field k v d) k' = (if k' = k then Some v else map_of d k')"
  by (simp add: set_field_def update_conv)

section \<open>Grade update\<close>

lemma one_submission_eq:
  "one_submission =
     \<lparr>colls = (\<lambda>_. [])(''submissions'' :=
         [[(''submissionId'', VStr ''s001''), (''assignmentId'', VStr ''a001''),
           (''studentId'', VStr ''u002''), (''submittedAt'', VDate 2024 5 1 0),
           (''content'', VStr ''my answer''), (''grade'', VNum 70), (''_id'', VOid (oid_bytes 0))]]),
       indexes = (\<lambda>_. []), next_oid = 1\<rparr>"
  by (simp add: one_submission_def submission_doc_def ident_def decimal.simps digit_def
        insert_one_def with_id_def oid_bytes_small empty_db_def field_path_def duplicate_key_def all_indexes_def
        index_key_def numeral_2_eq_2)

lemma ObjectId_zero: "ObjectId ''000000000000000000000000'' = Inr (VOid (oid_bytes 0))"
  by (simp add: ObjectId_def hex_val_def is_space_def oid_bytes_def)

lemma ObjectId_s001: "ObjectId ''s001'' = Inl (invalid_id ''s001'')"
  by (simp add: ObjectId_def)

text \<open>
  Claim C2 says that the grade-update accessor updates the grade of the stored
  Submission record it is given. The submissions are inserted into \<open>db.submissions\<close>;
  \<open>update_assignment_grade\<close> writes to \<open>db.assignment_submissions\<close>. What the code does
  instead: no call of the accessor, with any identifier and any grade, changes the
  collection \<open>submissions\<close>.
\<close>

theorem grade_update_misses_submissions:
  "colls (snd (update_assignment_grade submission_id grade s)) ''submissions''
     = colls s ''submissions''"
proof (cases "ObjectId submission_id")
  case (Inl e)
  then show ?thesis by (simp add: update_assignment_grade_def)
next
  case (Inr oid)
  obtain r s' where u:
    "update_one ''assignment_submissions'' (query_eq ''_id'' oid) (set_field ''grade'' grade) s
       = (r, s')"
    by (cases "update_one ''assignment_submissions'' (query_eq ''_id'' oid)
                 (set_field ''grade'' grade) s") auto
  have "colls s' ''submissions'' = colls s ''submissions''"
    using update_one_frame(3) [OF u, of "''submissions''"] by simp
  with Inr u show ?thesis by (simp add: update_assignment_grade_def)
qed

text \<open>
  On the generator's submission \<open>s001\<close>, stored with \<open>_id\<close> 0 and grade 70: called with
  the \<open>_id\<close>, the accessor matches nothing; called with the \<open>submissionId\<close>, it raises
  \<open>InvalidId\<close>; the grade stays 70.
\<close>

lemma grade_update_on_generated_submission:
  "update_assignment_grade ''000000000000000000000000'' (VNum 95) one_submission
     = (Inr \<lparr>matched_count = 0, modified_count = 0\<rparr>, one_submission)
   \<and> update_assignment_grade ''s001'' (VNum 95) one_submission
     = (Inl (invalid_id ''s001''), one_submission)
   \<and> map (field_path ''grade'') (colls one_submission ''submissions'') = [VNum 70]"
  by (simp add: update_assignment_grade_def ObjectId_zero ObjectId_s001 update_one_def)
     (simp add: one_submission_eq field_path_def)

section \<open>Soft delete\<close>

text \<open>
  Claim C10: \<open>soft_delete_user\<close> leaves the indexes, the ObjectId supply and every
  collection but \<open>users\<close> as they were, and keeps every user document in its place. A
  user document differs afterwards only if it is the first one whose \<open>userId\<close>
  matches, and then only in \<open>isActive\<close>, which is \<open>False\<close>: every other field reads as
  before. If no user matches, the state is unchanged.
\<close>

theorem soft_delete_user_frame:
  assumes "soft_delete_user user_id s = (r, s')"
  shows "indexes s' = indexes s \<and> next_oid s' = next_oid s
       \<and> (\<forall>c. c \<noteq> ''users'' \<longrightarrow> colls s' c = colls s c)
       \<and> length (colls s' ''users'') = length (colls s ''users'')
       \<and> (\<forall>i < length (colls s ''users'').
             colls s' ''users'' ! i = colls s ''users'' ! i
           \<or> (query_eq ''userId'' (VStr user_id) (colls s ''users'' ! i)
              \<and> (\<forall>j < i. \<not> query_eq ''userId'' (VStr user_id) (colls s ''users'' ! j))
              \<and> map_of (colls s' ''users'' ! i) ''isActive'' = Some (VBool False)
              \<and> (\<forall>k. k \<noteq> ''isActive'' \<longrightarrow>
                    map_of (colls s' ''users'' ! i) k = map_of (colls s ''users'' ! i) k)))
       \<and> ((\<forall>u \<in> set (colls s ''users''). \<not> query_eq ''userId'' (VStr user_id) u) \<longrightarrow> s' = s)"
proof -
  let ?q = "query_eq ''userId'' (VStr user_id)"
  let ?u = "set_field ''isActive'' (VBool False)"
  from assms have upd: "update_one ''users'' ?q ?u s = (r, s')"
    by (simp add: soft_delete_user_def)
  have nomatch: "(\<forall>u \<in> set (colls s ''users''). \<not> ?q u) \<longrightarrow> s' = s"
    using upd update_one_no_match [of s "''users''" ?q ?u] by auto
  have frame: "indexes s' = indexes s" "next_oid s' = next_oid s"
    "\<forall>c. c \<noteq> ''users'' \<longrightarrow> colls s' c = colls s c"
    using update_one_frame [OF upd] by blast+
  from update_one_cases [OF upd]
  consider (same) "s' = s"
    | (changed) before d after where "colls s ''users'' = before @ d # after" "?q d"
        "\<forall>x\<in>set before. \<not> ?q x" "s' = s\<lparr>colls := (colls s)(''users'' := before @ ?u d # after)\<rparr>"
    by blast
  then have users:
    "length (colls s' ''users'') = length (colls s ''users'') \<and>
     (\<forall>i < length (colls s ''users'').
             colls s' ''users'' ! i = colls s ''users'' ! i
           \<or> (?q (colls s ''users'' ! i)
              \<and> (\<forall>j < i. \<not> ?q (colls s ''users'' ! j))
              \<and> map_of (colls s' ''users'' ! i) ''isActive'' = Some (VBool False)
              \<and> (\<forall>k. k \<noteq> ''isActive'' \<longrightarrow>
                    map_of (colls s' ''users'' ! i) k = map_of (colls s ''users'' ! i) k)))"
  proof cases
    case same
    then show ?thesis by simp
  next
    case changed
    define us where "us = colls s ''users''"
    define us' where "us' = colls s' ''users''"
    have us: "us = before @ d # after" using changed(1) by (simp add: us_def)
    have us': "us' = before @ ?u d # after" using changed(4) by (simp add: us'_def)
    have len: "length us' = length us" by (simp add: us us')
    have pos: "us' ! i = us ! i
           \<or> (?q (us ! i) \<and> (\<forall>j < i. \<not> ?q (us ! j))
              \<and> map_of (us' ! i) ''isActive'' = Some (VBool False)
              \<and> (\<forall>k. k \<noteq> ''isActive'' \<longrightarrow> map_of (us' ! i) k = map_of (us ! i) k))" for i
    proof (cases "i = length before")
      case True
      have a: "us ! i = d" "us' ! i = ?u d" by (simp_all add: us us' True)
      have b: "\<forall>j < i. \<not> ?q (us ! j)"
      proof (intro allI impI)
        fix j assume "j < i"
        then have "us ! j = before ! j" "before ! j \<in> set before"
          by (simp_all add: us True nth_append)
        with changed(3) show "\<not> ?q (us ! j)" by simp
      qed
      show ?thesis
        unfolding a using b changed(2) unfolding a by (simp add: map_of_set_field)
    next
      case False
      have "us' ! i = us ! i"
        unfolding us us' using False by (simp add: nth_append nth_Cons')
      then show ?thesis ..
    qed
    show ?thesis
      using len pos unfolding us_def us'_def by blast
  qed
  show ?thesis
    using frame users nomatch by blast
qed

lemma two_users_eq:
  "two_users =
     \<lparr>colls = (\<lambda>_. [])(''users'' :=
         [[(''userId'', VStr ''u001''), (''email'', VStr ''ada@example.org''),
           (''role'', VStr ''student''), (''isActive'', VBool True), (''_id'', VOid (oid_bytes 0))],
          [(''userId'', VStr ''u002''), (''email'', VStr ''bob@example.org''),
           (''role'', VStr ''instructor''), (''isActive'', VBool True), (''_id'', VOid (oid_bytes 1))]]),
       indexes = (\<lambda>_. []), next_oid = 2\<rparr>"
  by (simp add: two_users_def insert_one_def with_id_def oid_bytes_small empty_db_def field_path_def duplicate_key_def
        all_indexes_def index_key_def numeral_2_eq_2)

lemma soft_delete_u002:
  "soft_delete_user ''u002'' two_users =
     (Inr \<lparr>matched_count = 1, modified_count = 1\<rparr>,
      \<lparr>colls = (\<lambda>_. [])(''users'' :=
         [[(''userId'', VStr ''u001''), (''email'', VStr ''ada@example.org''),
           (''role'', VStr ''student''), (''isActive'', VBool True), (''_id'', VOid (oid_bytes 0))],
          [(''userId'', VStr ''u002''), (''email'', VStr ''bob@example.org''),
           (''role'', VStr ''instructor''), (''isActive'', VBool False), (''_id'', VOid (oid_bytes 1))]]),
       indexes = (\<lambda>_. []), next_oid = 2\<rparr>)"
  by (simp add: soft_delete_user_def update_one_def two_users_eq query_eq_def
        set_field_def update_conflict_def all_indexes_def index_key_def field_path_def)

lemma soft_delete_u009:
  "soft_delete_user ''u009'' two_users =
     (Inr \<lparr>matched_count = 0, modified_count = 0\<rparr>, two_users)"
  by (simp add: soft_delete_user_def update_one_def two_users_eq query_eq_def)

text \<open>
  The theorem on two stored users: deleting \<open>u002\<close> turns only its \<open>isActive\<close> to
  \<open>False\<close>, both documents stay, and deleting the unknown \<open>u009\<close> changes nothing.
\<close>

theorem soft_delete_user_frame_witness:
  "fst (soft_delete_user ''u002'' two_users) = Inr \<lparr>matched_count = 1, modified_count = 1\<rparr>
   \<and> map (field_path ''isActive'') (colls (snd (soft_delete_user ''u002'' two_users)) ''users'')
       = [VBool True, VBool False]
   \<and> map (field_path ''email'') (colls (snd (soft_delete_user ''u002'' two_users)) ''users'')
       = map (field_path ''email'') (colls two_users ''users'')
   \<and> colls (snd (soft_delete_user ''u002'' two_users)) ''courses'' = colls two_users ''courses''
   \<and> snd (soft_delete_user ''u009'' two_users) = two_users"
proof -
  note a = soft_delete_user_frame [OF soft_delete_u002]
  note b = soft_delete_user_frame [OF soft_delete_u009]
  have c: "colls (snd (soft_delete_user ''u002'' two_users)) ''courses''
             = colls two_users ''courses''"
    using a by (simp add: soft_delete_u002)
  have d: "snd (soft_delete_user ''u009'' two_users) = two_users"
    using b by (simp add: soft_delete_u009)
  have e: "fst (soft_delete_user ''u002'' two_users)
             = Inr \<lparr>matched_count = 1, modified_count = 1\<rparr>"
    by (simp add: soft_delete_u002)
  have f: "map (field_path ''isActive'') (colls (snd (soft_delete_user ''u002'' two_users)) ''users'')
             = [VBool True, VBool False]"
    by (simp add: soft_delete_u002 field_path_def)
  have g: "map (field_path ''email'') (colls (snd (soft_delete_user ''u002'' two_users)) ''users'')
             = map (field_path ''email'') (colls two_users ''users'')"
    unfolding soft_delete_u002 by (simp add: two_users_eq field_path_def)
  from c d e f g show ?thesis by blast
qed

section \<open>Average ratings\<close>

lemma match_stage_drop:
  "\<not> q c \<Longrightarrow> match_stage q (before @ c # after) = match_stage q (before @ after)"
  by (simp add: match_stage_def)

text \<open>
  Claim C6: a course without a \<open>rating\<close> attribute has no part in an average rating.
  With such a course \<open>c\<close> stored anywhere among the courses, the per-course average
  rating query and the per-instructor average rating query return what they return
  without it: the same groups with the same averages, so \<open>c\<close> adds nothing to a sum
  and nothing to a count, and is not taken as a rating of zero.
\<close>

theorem unrated_course_ignored:
  assumes "map_of c ''rating'' = None"
  shows "average_course_rating ar (with_courses s (before @ c # after))
           = average_course_rating ar (with_courses s (before @ after))
       \<and> average_rating_per_instructor ar (with_courses s (before @ c # after))
           = average_rating_per_instructor ar (with_courses s (before @ after))"
proof -
  have "\<not> query_exists ''rating'' c"
    using assms by (simp add: query_exists_def)
  then have "match_stage (query_exists ''rating'') (before @ c # after)
               = match_stage (query_exists ''rating'') (before @ after)"
    by (rule match_stage_drop)
  then show ?thesis
    by (simp add: average_course_rating_def average_rating_per_instructor_def with_courses_def)
qed

lemma rated_courses_per_instructor:
  "average_rating_per_instructor exact_arith (with_courses empty_db
     [[(''courseId'', VStr ''c001''), (''instructorId'', VStr ''u001''), (''rating'', VNum 4)],
      [(''courseId'', VStr ''c003''), (''instructorId'', VStr ''u001''), (''rating'', VNum 5)]])
   = [[(''_id'', VStr ''u001''), (''averageRating'', VNum (9 / 2))]]"
  by (simp add: average_rating_per_instructor_def with_courses_def empty_db_def match_stage_def
        query_exists_def group_stage_def group_keyed_def group_keys_def field_path_def acc_avg_def
        exact_arith_def)

lemma rated_courses_per_course:
  "average_course_rating exact_arith (with_courses empty_db
     [[(''courseId'', VStr ''c001''), (''instructorId'', VStr ''u001''), (''rating'', VNum 4)],
      [(''courseId'', VStr ''c003''), (''instructorId'', VStr ''u001''), (''rating'', VNum 5)]])
   = [[(''_id'', VStr ''c001''), (''avgRating'', VNum 4)],
      [(''_id'', VStr ''c003''), (''avgRating'', VNum 5)]]"
  by (simp add: average_course_rating_def with_courses_def empty_db_def match_stage_def
        query_exists_def group_stage_def group_keyed_def group_keys_def field_path_def acc_avg_def
        exact_arith_def)

text \<open>
  Instructor \<open>u001\<close> has courses rated 4 and 5 and, between them, the unrated course
  \<open>c002\<close>: the instructor's average is 9/2 (not 3, as with a zero for \<open>c002\<close>), and
  \<open>c002\<close> has no per-course average.
\<close>

theorem unrated_course_ignored_witness:
  "map_of [(''courseId'', VStr ''c002''), (''instructorId'', VStr ''u001'')] ''rating'' = None
   \<and> average_rating_per_instructor exact_arith (with_courses empty_db
          [[(''courseId'', VStr ''c001''), (''instructorId'', VStr ''u001''), (''rating'', VNum 4)],
           [(''courseId'', VStr ''c002''), (''instructorId'', VStr ''u001'')],
           [(''courseId'', VStr ''c003''), (''instructorId'', VStr ''u001''), (''rating'', VNum 5)]])
        = [[(''_id'', VStr ''u001''), (''averageRating'', VNum (9 / 2))]]
   \<and> average_course_rating exact_arith (with_courses empty_db
          [[(''courseId'', VStr ''c001''), (''instructorId'', VStr ''u001''), (''rating'', VNum 4)],
           [(''courseId'', VStr ''c002''), (''instructorId'', VStr ''u001'')],
           [(''courseId'', VStr ''c003''), (''instructorId'', VStr ''u001''), (''rating'', VNum 5)]])
        = [[(''_id'', VStr ''c001''), (''avgRating'', VNum 4)],
           [(''_id'', VStr ''c003''), (''avgRating'', VNum 5)]]"
proof -
  have h: "map_of [(''courseId'', VStr ''c002''), (''instructorId'', VStr ''u001'')] ''rating'' = None"
    by simp
  from unrated_course_ignored [OF h, of exact_arith empty_db
     "[[(''courseId'', VStr ''c001''), (''instructorId'', VStr ''u001''), (''rating'', VNum 4)]]"
     "[[(''courseId'', VStr ''c003''), (''instructorId'', VStr ''u001''), (''rating'', VNum 5)]]"]
  show ?thesis
    using h
    by (simp only: append.simps rated_courses_per_instructor rated_courses_per_course)
qed

section \<open>Sorting stage\<close>








section \<open>Top-performing students\<close>







text \<open>
  On the example submissions the query returns \<open>u003\<close>, \<open>u004\<close> and \<open>u001\<close>, in
  this order; \<open>u001\<close> averages exactly 90 and is in, \<open>u002\<close> averages 89.5 and is
  out.
\<close>

lemma top_of_graded_submissions:
  "top_performing_students exact_arith graded_submissions =
     [[(''_id'', VStr ''u003''), (''averageGrade'', VNum 100)],
      [(''_id'', VStr ''u004''), (''averageGrade'', VNum 95)],
      [(''_id'', VStr ''u001''), (''averageGrade'', VNum 90)]]"
  by (simp add: top_performing_students_def graded_submissions_def empty_db_def
        group_stage_def group_keyed_def group_keys_def field_path_def acc_avg_def
        match_stage_def query_gte_def num_gte_def sort_by_def bson_le_def exact_arith_def)


section \<open>Revenue per instructor\<close>





text \<open>On join keys that are not arrays, \<open>$lookup\<close> matches by equality.\<close>

lemma lookup_matches_scalar:
  assumes "\<not> is_array l" "\<not> is_array (field_path fk f)"
  shows "lookup_matches l fk f \<longleftrightarrow> field_path fk f = l"
proof -
  have "query_eq fk l f \<longleftrightarrow> field_path fk f = l"
    using assms(2)
    by (cases "map_of f fk") (auto simp add: query_eq_def field_path_def is_array_def split: val.splits)
  moreover have "lookup_matches l fk f = query_eq fk l f"
    using assms(1) by (cases l) (simp_all add: lookup_matches_def is_array_def)
  ultimately show ?thesis by simp
qed

text \<open>
  So the enrollments counted for a course are those with the course's \<open>courseId\<close>,
  when no \<open>courseId\<close> is an array.
\<close>

lemma enrollment_count_scalar:
  assumes "\<not> is_array (field_path ''courseId'' c)"
    and "\<forall>e\<in>set (colls s ''enrollments''). \<not> is_array (field_path ''courseId'' e)"
  shows "enrollment_count s c =
     length (filter (\<lambda>e. field_path ''courseId'' e = field_path ''courseId'' c)
               (colls s ''enrollments''))"
proof -
  have "filter (lookup_matches (field_path ''courseId'' c) ''courseId'') (colls s ''enrollments'')
      = filter (\<lambda>e. field_path ''courseId'' e = field_path ''courseId'' c) (colls s ''enrollments'')"
    using assms by (intro filter_cong) (simp_all add: lookup_matches_scalar)
  then show ?thesis by (simp add: enrollment_count_def)
qed










text \<open>The example scenario: the revenue reported for \<open>u1\<close> is 100.\<close>

lemma example_revenue:
  "revenue_per_instructor exact_arith example_scenario
     = Inr [[(''_id'', VStr ''u1''), (''totalRevenue'', VNum 100)]]"
  by (simp add: revenue_per_instructor_def example_scenario_def empty_db_def lookup_stage_def
        lookup_matches_def query_eq_def field_path_def project_revenue_def size_expr_def
        multiply_expr_def group_stage_def group_keyed_def group_keys_def acc_sum_def
        sum_nums_def exact_arith_def update_conv)




section \<open>Index declarations\<close>

lemma create_index_ok:
  assumes "create_index c ix s = (Inr n, s')"
  shows "ix \<in> set (indexes s' c)" "c' \<noteq> c \<Longrightarrow> indexes s' c' = indexes s c'"
    "colls s' = colls s"
  using assms by (auto simp add: create_index_def split: if_splits)

lemma distinct_index_key_single:
  "distinct (map (index_key [k]) ds) = distinct (map (field_path k) ds)"
  by (induction ds) (auto simp add: index_key_def)

lemma create_indexes_cases:
  "create_indexes s = (r, s') \<Longrightarrow>
     (\<exists>e. r = Inl e) \<or>
     (r = Inr VNull \<and>
      \<lparr>keys = [''email''], unique = True\<rparr> \<in> set (indexes s' ''users'') \<and>
      \<lparr>keys = [''title'', ''category''], unique = False\<rparr> \<in> set (indexes s' ''courses'') \<and>
      \<lparr>keys = [''dueDate''], unique = False\<rparr> \<in> set (indexes s' ''assignments'') \<and>
      \<lparr>keys = [''studentId'', ''courseId''], unique = False\<rparr> \<in> set (indexes s' ''enrollments''))"
proof -
  assume run: "create_indexes s = (r, s')"
  obtain r1 s1 where c1: "create_index ''users'' \<lparr>keys = [''email''], unique = True\<rparr> s = (r1, s1)"
    by (cases "create_index ''users'' \<lparr>keys = [''email''], unique = True\<rparr> s") auto
  obtain r2 s2 where c2: "create_index ''courses'' \<lparr>keys = [''title'', ''category''], unique = False\<rparr> s1 = (r2, s2)"
    by (cases "create_index ''courses'' \<lparr>keys = [''title'', ''category''], unique = False\<rparr> s1") auto
  obtain r3 s3 where c3: "create_index ''assignments'' \<lparr>keys = [''dueDate''], unique = False\<rparr> s2 = (r3, s3)"
    by (cases "create_index ''assignments'' \<lparr>keys = [''dueDate''], unique = False\<rparr> s2") auto
  obtain r4 s4 where c4: "create_index ''enrollments'' \<lparr>keys = [''studentId'', ''courseId''], unique = False\<rparr> s3 = (r4, s4)"
    by (cases "create_index ''enrollments'' \<lparr>keys = [''studentId'', ''courseId''], unique = False\<rparr> s3") auto
  show ?thesis
  proof (cases "\<exists>e. r = Inl e")
    case True
    then show ?thesis by blast
  next
    case False
    with run c1 c2 c3 c4 obtain n1 n2 n3 n4 where
      ok: "r1 = Inr n1" "r2 = Inr n2" "r3 = Inr n3" "r4 = Inr n4" "r = Inr VNull" "s' = s4"
      by (auto simp add: create_indexes_def split: sum.splits)
    note a = create_index_ok [OF c1 [unfolded ok]]
    note b = create_index_ok [OF c2 [unfolded ok]]
    note c = create_index_ok [OF c3 [unfolded ok]]
    note d = create_index_ok [OF c4 [unfolded ok]]
    have "\<lparr>keys = [''email''], unique = True\<rparr> \<in> set (indexes s4 ''users'')"
      using a(1) b(2) [of "''users''"] c(2) [of "''users''"] d(2) [of "''users''"] by simp
    moreover have "\<lparr>keys = [''title'', ''category''], unique = False\<rparr> \<in> set (indexes s4 ''courses'')"
      using b(1) c(2) [of "''courses''"] d(2) [of "''courses''"] by simp
    moreover have "\<lparr>keys = [''dueDate''], unique = False\<rparr> \<in> set (indexes s4 ''assignments'')"
      using c(1) d(2) [of "''assignments''"] by simp
    moreover note d(1)
    ultimately show ?thesis using ok by blast
  qed
qed

lemma create_indexes_present:
  assumes "\<lparr>keys = [''email''], unique = True\<rparr> \<in> set (indexes s ''users'')"
    "\<lparr>keys = [''title'', ''category''], unique = False\<rparr> \<in> set (indexes s ''courses'')"
    "\<lparr>keys = [''dueDate''], unique = False\<rparr> \<in> set (indexes s ''assignments'')"
    "\<lparr>keys = [''studentId'', ''courseId''], unique = False\<rparr> \<in> set (indexes s ''enrollments'')"
  shows "create_indexes s = (Inr VNull, s)"
  using assms by (simp add: create_indexes_def create_index_def)


lemma with_id_frame:
  "colls (snd (with_id document s)) = colls s"
  "indexes (snd (with_id document s)) = indexes s"
  "k \<noteq> ''_id'' \<Longrightarrow> map_of (fst (with_id document s)) k = map_of document k"
  by (simp_all add: with_id_def map_add_def split: option.splits)

lemma insert_one_duplicate_email:
  assumes ix: "\<lparr>keys = [''email''], unique = True\<rparr> \<in> set (indexes s c)"
    and u: "u \<in> set (colls s c)" "map_of u ''email'' = Some (VStr e)"
    and d: "map_of document ''email'' = Some (VStr e)"
  shows "\<exists>x. fst (insert_one c document s) = Inl x"
    and "colls (snd (insert_one c document s)) = colls s"
    and "indexes (snd (insert_one c document s)) = indexes s"
proof -
  obtain d' s' where w: "with_id document s = (d', s')"
    by (cases "with_id document s") auto
  have s': "colls s' = colls s" "indexes s' = indexes s"
    using with_id_frame(1,2) [of document s] by (simp_all add: w)
  have "map_of d' ''email'' = map_of document ''email''"
    using with_id_frame(3) [of "''email''" document s] by (simp add: w)
  then have key: "index_key [''email''] d' = index_key [''email''] u"
    using u(2) d by (simp add: index_key_def field_path_def)
  have "\<lparr>keys = [''email''], unique = True\<rparr> \<in> set (all_indexes s' c)"
    using ix by (simp add: all_indexes_def s')
  moreover have "unique \<lparr>keys = [''email''], unique = True\<rparr> \<and>
      (\<exists>x\<in>set (colls s' c). index_key (keys \<lparr>keys = [''email''], unique = True\<rparr>) x
                               = index_key (keys \<lparr>keys = [''email''], unique = True\<rparr>) d')"
    using u(1) key s'(1) by auto
  ultimately have dup: "duplicate_key s' c (colls s' c) d'"
    unfolding duplicate_key_def list_ex_iff by (rule bexI [rotated])
  have run: "insert_one c document s =
      (case field_path ''_id'' d' of
         VArr _ \<Rightarrow> (Inl (OperationFailure ''The _id field cannot be an array''), s')
       | _ \<Rightarrow> (Inl (DuplicateKeyError ''E11000 duplicate key error''), s'))"
    using dup by (simp add: insert_one_def w split: val.splits)
  show "\<exists>x. fst (insert_one c document s) = Inl x"
    unfolding run by (simp split: val.splits)
  show "colls (snd (insert_one c document s)) = colls s"
    unfolding run using s'(1) by (simp split: val.splits)
  show "indexes (snd (insert_one c document s)) = indexes s"
    unfolding run using s'(2) by (simp split: val.splits)
qed

lemma create_indexes_duplicate_emails:
  assumes "\<not> distinct (map (field_path ''email'') (colls s ''users''))"
    and "\<lparr>keys = [''email''], unique = True\<rparr> \<notin> set (indexes s ''users'')"
  shows "\<exists>x. create_indexes s = (Inl x, s)"
proof -
  have "\<not> distinct (map (index_key [''email'']) (colls s ''users''))"
    using assms(1) by (simp add: distinct_index_key_single)
  with assms(2) have "\<exists>x. create_index ''users'' \<lparr>keys = [''email''], unique = True\<rparr> s = (Inl x, s)"
    by (simp add: create_index_def)
  then show ?thesis by (auto simp add: create_indexes_def)
qed

text \<open>
  Claim C7, in three parts. After a \<open>create_indexes\<close> that succeeded, the four
  indexes are declared, and a second \<open>create_indexes\<close> succeeds and leaves the state
  as it is: no index is added twice. Once the unique index on \<open>email\<close> exists,
  inserting a user whose email a stored user already has fails and stores nothing.
  And while the unique index does not exist yet, \<open>create_indexes\<close> on users with a
  repeated email fails at its first declaration and declares nothing.
\<close>

theorem create_indexes_idempotent:
  "(create_indexes s = (Inr VNull, s1) \<longrightarrow>
      create_indexes s1 = (Inr VNull, s1)
    \<and> \<lparr>keys = [''email''], unique = True\<rparr> \<in> set (indexes s1 ''users'')
    \<and> \<lparr>keys = [''title'', ''category''], unique = False\<rparr> \<in> set (indexes s1 ''courses'')
    \<and> \<lparr>keys = [''dueDate''], unique = False\<rparr> \<in> set (indexes s1 ''assignments'')
    \<and> \<lparr>keys = [''studentId'', ''courseId''], unique = False\<rparr> \<in> set (indexes s1 ''enrollments''))
   \<and> (\<lparr>keys = [''email''], unique = True\<rparr> \<in> set (indexes s2 ''users'')
        \<and> u \<in> set (colls s2 ''users'') \<and> map_of u ''email'' = Some (VStr e)
        \<and> map_of user ''email'' = Some (VStr e) \<longrightarrow>
      (\<exists>x. fst (add_student_user user s2) = Inl x)
      \<and> colls (snd (add_student_user user s2)) = colls s2)
   \<and> (\<not> distinct (map (field_path ''email'') (colls s3 ''users''))
        \<and> \<lparr>keys = [''email''], unique = True\<rparr> \<notin> set (indexes s3 ''users'') \<longrightarrow>
      (\<exists>x. create_indexes s3 = (Inl x, s3)))"
proof (intro conjI impI)
  assume run: "create_indexes s = (Inr VNull, s1)"
  from create_indexes_cases [OF run]
  have four: "\<lparr>keys = [''email''], unique = True\<rparr> \<in> set (indexes s1 ''users'') \<and>
      \<lparr>keys = [''title'', ''category''], unique = False\<rparr> \<in> set (indexes s1 ''courses'') \<and>
      \<lparr>keys = [''dueDate''], unique = False\<rparr> \<in> set (indexes s1 ''assignments'') \<and>
      \<lparr>keys = [''studentId'', ''courseId''], unique = False\<rparr> \<in> set (indexes s1 ''enrollments'')"
    by simp
  then show "create_indexes s1 = (Inr VNull, s1)"
    by (simp add: create_indexes_present)
  from four show "\<lparr>keys = [''email''], unique = True\<rparr> \<in> set (indexes s1 ''users'')" by simp
  from four show "\<lparr>keys = [''title'', ''category''], unique = False\<rparr> \<in> set (indexes s1 ''courses'')" by simp
  from four show "\<lparr>keys = [''dueDate''], unique = False\<rparr> \<in> set (indexes s1 ''assignments'')" by simp
  from four show "\<lparr>keys = [''studentId'', ''courseId''], unique = False\<rparr> \<in> set (indexes s1 ''enrollments'')" by simp
next
  assume a: "\<lparr>keys = [''email''], unique = True\<rparr> \<in> set (indexes s2 ''users'')
        \<and> u \<in> set (colls s2 ''users'') \<and> map_of u ''email'' = Some (VStr e)
        \<and> map_of user ''email'' = Some (VStr e)"
  then show "\<exists>x. fst (add_student_user user s2) = Inl x"
    unfolding add_student_user_def by (intro insert_one_duplicate_email(1) [of _ _ u e]) simp_all
  from a show "colls (snd (add_student_user user s2)) = colls s2"
    unfolding add_student_user_def by (intro insert_one_duplicate_email(2) [of _ _ u e]) simp_all
next
  assume "\<not> distinct (map (field_path ''email'') (colls s3 ''users''))
        \<and> \<lparr>keys = [''email''], unique = True\<rparr> \<notin> set (indexes s3 ''users'')"
  then show "\<exists>x. create_indexes s3 = (Inl x, s3)"
    by (simp add: create_indexes_duplicate_emails)
qed

lemma indexed_users_eq:
  "indexed_users =
     \<lparr>colls = (\<lambda>_. [])(''users'' :=
         [[(''userId'', VStr ''u001''), (''email'', VStr ''ada@example.org''),
           (''role'', VStr ''student''), (''isActive'', VBool True), (''_id'', VOid (oid_bytes 0))],
          [(''userId'', VStr ''u002''), (''email'', VStr ''bob@example.org''),
           (''role'', VStr ''instructor''), (''isActive'', VBool True), (''_id'', VOid (oid_bytes 1))]]),
       indexes = (\<lambda>_. [])
         (''users'' := [\<lparr>keys = [''email''], unique = True\<rparr>],
          ''courses'' := [\<lparr>keys = [''title'', ''category''], unique = False\<rparr>],
          ''assignments'' := [\<lparr>keys = [''dueDate''], unique = False\<rparr>],
          ''enrollments'' := [\<lparr>keys = [''studentId'', ''courseId''], unique = False\<rparr>]),
       next_oid = 2\<rparr>"
  by (simp add: indexed_users_def create_indexes_def create_index_def two_users_eq
        index_key_def field_path_def)

lemma create_indexes_two_users: "create_indexes two_users = (Inr VNull, indexed_users)"
  unfolding indexed_users_eq
  by (simp add: create_indexes_def create_index_def two_users_eq index_key_def field_path_def)

lemma same_email_users_eq:
  "same_email_users =
     \<lparr>colls = (\<lambda>_. [])(''users'' :=
         [[(''userId'', VStr ''u001''), (''email'', VStr ''ada@example.org''), (''_id'', VOid (oid_bytes 0))],
          [(''userId'', VStr ''u002''), (''email'', VStr ''ada@example.org''), (''_id'', VOid (oid_bytes 1))]]),
       indexes = (\<lambda>_. []), next_oid = 2\<rparr>"
  by (simp add: same_email_users_def insert_one_def with_id_def oid_bytes_small empty_db_def field_path_def
        duplicate_key_def all_indexes_def index_key_def numeral_2_eq_2)

text \<open>
  The theorem on the example users: \<open>create_indexes\<close> succeeds on the two users and
  again on its own result, which has one index on \<open>users\<close>; a third user with the
  email of \<open>u001\<close> is then refused; and on two users with one email \<open>create_indexes\<close>
  fails and leaves the state as it was.
\<close>

theorem create_indexes_idempotent_witness:
  "create_indexes two_users = (Inr VNull, indexed_users)
   \<and> create_indexes indexed_users = (Inr VNull, indexed_users)
   \<and> indexes indexed_users ''users'' = [\<lparr>keys = [''email''], unique = True\<rparr>]
   \<and> (\<exists>x. fst (add_student_user
               [(''userId'', VStr ''u003''), (''email'', VStr ''ada@example.org'')]
               indexed_users) = Inl x)
   \<and> colls (snd (add_student_user
               [(''userId'', VStr ''u003''), (''email'', VStr ''ada@example.org'')]
               indexed_users)) = colls indexed_users
   \<and> (\<exists>x. create_indexes same_email_users = (Inl x, same_email_users))"
proof -
  note t = create_indexes_idempotent [of two_users indexed_users indexed_users
      "[(''userId'', VStr ''u001''), (''email'', VStr ''ada@example.org''),
        (''role'', VStr ''student''), (''isActive'', VBool True), (''_id'', VOid (oid_bytes 0))]"
      "''ada@example.org''"
      "[(''userId'', VStr ''u003''), (''email'', VStr ''ada@example.org'')]"
      same_email_users]
  have a: "create_indexes two_users = (Inr VNull, indexed_users)"
    by (rule create_indexes_two_users)
  have b: "\<lparr>keys = [''email''], unique = True\<rparr> \<in> set (indexes indexed_users ''users'')
        \<and> [(''userId'', VStr ''u001''), (''email'', VStr ''ada@example.org''),
            (''role'', VStr ''student''), (''isActive'', VBool True), (''_id'', VOid (oid_bytes 0))]
          \<in> set (colls indexed_users ''users'')
        \<and> map_of [(''userId'', VStr ''u001''), (''email'', VStr ''ada@example.org''),
            (''role'', VStr ''student''), (''isActive'', VBool True), (''_id'', VOid (oid_bytes 0))] ''email''
            = Some (VStr ''ada@example.org'')
        \<and> map_of [(''userId'', VStr ''u003''), (''email'', VStr ''ada@example.org'')] ''email''
            = Some (VStr ''ada@example.org'')"
    by (simp add: indexed_users_eq)
  have c: "\<not> distinct (map (field_path ''email'') (colls same_email_users ''users''))
        \<and> \<lparr>keys = [''email''], unique = True\<rparr> \<notin> set (indexes same_email_users ''users'')"
    by (simp add: same_email_users_eq field_path_def)
  have d: "indexes indexed_users ''users'' = [\<lparr>keys = [''email''], unique = True\<rparr>]"
    by (simp add: indexed_users_eq)
  from t a b c d show ?thesis by blast
qed

section \<open>The insert wrapper\<close>

text \<open>
  Claim C8: whatever the insert of the collection does with the document, the wrapper
  raises nothing and returns \<open>None\<close>; the state is the one the insert left; and a
  line is printed exactly when the insert raised, with the exception's message. The
  returned value is the same after a failure and after a success.
\<close>

theorem insert_wrapper_signals_nothing:
  "fst (insert_with_error_handling collection_insert_one document s) = Inr VNull
   \<and> fst (snd (insert_with_error_handling collection_insert_one document s))
       = snd (collection_insert_one document s)
   \<and> snd (snd (insert_with_error_handling collection_insert_one document s))
       = (case fst (collection_insert_one document s) of
            Inl e \<Rightarrow> [''Insertion failed: '' @ str_exn e]
          | Inr r \<Rightarrow> [])"
  by (cases "collection_insert_one document s")
     (auto simp add: insert_with_error_handling_def split: sum.splits)

lemma insert_known_email:
  "fst (insert_one ''users'' [(''userId'', VStr ''u003''), (''email'', VStr ''ada@example.org'')]
          indexed_users)
     = Inl (DuplicateKeyError ''E11000 duplicate key error'')"
  by (simp add: insert_one_def with_id_def indexed_users_eq field_path_def duplicate_key_def
        all_indexes_def index_key_def oid_bytes_small)

lemma insert_new_email:
  "fst (insert_one ''users'' [(''userId'', VStr ''u003''), (''email'', VStr ''cy@example.org'')]
          indexed_users)
     = Inr (VOid (oid_bytes 2))"
  by (simp add: insert_one_def with_id_def indexed_users_eq field_path_def duplicate_key_def
        all_indexes_def index_key_def oid_bytes_small)

text \<open>
  On the indexed users, inserting a user with a stored email raises and inserting one
  with a new email succeeds; through the wrapper both calls return the same value, and
  only the first prints.
\<close>

theorem insert_wrapper_signals_nothing_witness:
  "fst (insert_one ''users'' [(''userId'', VStr ''u003''), (''email'', VStr ''ada@example.org'')]
          indexed_users)
     = Inl (DuplicateKeyError ''E11000 duplicate key error'')
   \<and> fst (insert_one ''users'' [(''userId'', VStr ''u003''), (''email'', VStr ''cy@example.org'')]
          indexed_users)
     = Inr (VOid (oid_bytes 2))
   \<and> fst (insert_with_error_handling (insert_one ''users'')
            [(''userId'', VStr ''u003''), (''email'', VStr ''ada@example.org'')] indexed_users)
     = fst (insert_with_error_handling (insert_one ''users'')
            [(''userId'', VStr ''u003''), (''email'', VStr ''cy@example.org'')] indexed_users)
   \<and> snd (snd (insert_with_error_handling (insert_one ''users'')
            [(''userId'', VStr ''u003''), (''email'', VStr ''ada@example.org'')] indexed_users))
     = [''Insertion failed: E11000 duplicate key error'']
   \<and> snd (snd (insert_with_error_handling (insert_one ''users'')
            [(''userId'', VStr ''u003''), (''email'', VStr ''cy@example.org'')] indexed_users))
     = []"
proof -
  note a = insert_wrapper_signals_nothing [of "insert_one ''users''"
     "[(''userId'', VStr ''u003''), (''email'', VStr ''ada@example.org'')]" indexed_users]
  note b = insert_wrapper_signals_nothing [of "insert_one ''users''"
     "[(''userId'', VStr ''u003''), (''email'', VStr ''cy@example.org'')]" indexed_users]
  from a b show ?thesis
    by (simp add: insert_known_email insert_new_email)
qed

end
